theory Spec2Isabelle
  imports Main "HOL-Library.Sublist"
begin

section \<open>Python strings\<close>

text \<open>
  A Python \<open>str\<close> is a sequence of code points. For the text of a page, the skills
  and the unfamiliar skills the model is \<^typ>\<open>string\<close>, one \<^typ>\<open>char\<close> per code
  point, so it covers the code points below 256 (ASCII and Latin-1); \<open>of_char\<close> reads
  the code point. On these code points \<open>str.lower\<close>, \<open>str.strip\<close> and \<open>in\<close> are the
  functions below. The query and the location, which only the URL builder reads, are
  held as lists of code points of any size (see there).
\<close>

definition isspace :: "char \<Rightarrow> bool" where
  \<comment> \<open>the code points below 256 that \<open>str.isspace\<close> accepts and \<open>str.strip()\<close> removes\<close>
  "isspace c = (of_char c \<in> {9, 10, 11, 12, 13, 28, 29, 30, 31, 32, 133, 160 :: nat})"

definition isupper :: "char \<Rightarrow> bool" where
  \<comment> \<open>\<open>A\<close> to \<open>Z\<close>, and the Latin-1 capitals \<open>U+00C0\<close> to \<open>U+00DE\<close> but the sign \<open>U+00D7\<close>\<close>
  "isupper c = (let n = of_char c :: nat in
     (65 \<le> n \<and> n \<le> 90) \<or> (192 \<le> n \<and> n \<le> 222 \<and> n \<noteq> 215))"

definition lower_char :: "char \<Rightarrow> char" where
  "lower_char c = (if isupper c then char_of (of_char c + 32 :: nat) else c)"

definition lower :: "string \<Rightarrow> string" where
  \<comment> \<open>\<open>s.lower()\<close>\<close>
  "lower s = map lower_char s"

definition strip :: "string \<Rightarrow> string" where
  \<comment> \<open>\<open>s.strip()\<close>: leading and trailing whitespace removed\<close>
  "strip s = rev (dropWhile isspace (rev (dropWhile isspace s)))"

fun contains :: "string \<Rightarrow> string \<Rightarrow> bool" where
  \<comment> \<open>\<open>sub in s\<close> on strings: \<open>sub\<close> starts at some position of \<open>s\<close>\<close>
  "contains sub [] = (sub = [])"
| "contains sub (c # cs) = (prefix sub (c # cs) \<or> contains sub cs)"

section \<open>Job records\<close>

text \<open>
  A job is the \<open>dict\<close> that \<open>extract_job_info\<close> builds: keys in insertion order, each
  value a string, or a list of strings for \<open>skills\<close>.
\<close>

datatype pyval = Str string | StrList "string list"

type_synonym job = "(string \<times> pyval) list"

definition dict_get :: "job \<Rightarrow> string \<Rightarrow> pyval \<Rightarrow> pyval" where
  \<comment> \<open>\<open>d.get(key, default)\<close>\<close>
  "dict_get d key dflt = (case map_of d key of Some v \<Rightarrow> v | None \<Rightarrow> dflt)"

fun iterate :: "pyval \<Rightarrow> string list" where
  \<comment> \<open>what \<open>for skill in v\<close> runs over: the items of a list, the characters of a string\<close>
  "iterate (StrList xs) = xs"
| "iterate (Str s) = map (\<lambda>c. [c]) s"

definition skill_tokens :: "job \<Rightarrow> string list" where
  \<comment> \<open>\<open>job.get('skills', [])\<close>, as iterated\<close>
  "skill_tokens j = iterate (dict_get j ''skills'' (StrList []))"

section \<open>The skill filter\<close>

text \<open>
  \<open>filter_jobs_by_skills\<close>, lines 109 to 126: the loop over \<open>jobs\<close> carries
  \<open>filtered_jobs\<close>; both \<open>any\<close> are \<open>list_ex\<close>.
\<close>

definition has_unfamiliar :: "string list \<Rightarrow> job \<Rightarrow> bool" where
  "has_unfamiliar unfamiliar_skills j =
     (let job_skills = map lower (skill_tokens j);
          unfamiliar_lower = map (\<lambda>skill. strip (lower skill)) unfamiliar_skills
      in list_ex (\<lambda>unfamiliar. list_ex (\<lambda>job_skill. contains unfamiliar job_skill) job_skills)
           unfamiliar_lower)"

fun filter_loop :: "job list \<Rightarrow> string list \<Rightarrow> job list \<Rightarrow> job list" where
  "filter_loop [] unfamiliar_skills filtered_jobs = filtered_jobs"
| "filter_loop (j # jobs) unfamiliar_skills filtered_jobs =
     filter_loop jobs unfamiliar_skills
       (if \<not> has_unfamiliar unfamiliar_skills j then filtered_jobs @ [j] else filtered_jobs)"

definition filter_jobs_by_skills :: "job list \<Rightarrow> string list \<Rightarrow> job list" where
  "filter_jobs_by_skills jobs unfamiliar_skills = filter_loop jobs unfamiliar_skills []"

text \<open>
  The specification's wording of the filter: a record is excluded when an entry of the
  unfamiliar skills, lower-cased and trimmed, is a substring of one of its skill tokens
  lower-cased.
\<close>

definition excluded :: "string list \<Rightarrow> job \<Rightarrow> bool" where
  "excluded unfamiliar_skills j =
     (\<exists>u \<in> set unfamiliar_skills. \<exists>tok \<in> set (skill_tokens j).
        sublist (strip (lower u)) (lower tok))"

section \<open>Markup\<close>

text \<open>
  A listing fragment is a node of the parsed page, as BeautifulSoup holds it: a tag with
  its name, its \<open>class\<close> attribute split into a list, its other attributes and its
  children, or a string. The lookups of the extractor are: \<open>descendants\<close> (document
  order, the node itself left out), \<open>find_all\<close> and \<open>find\<close> by tag name and optional
  \<open>class_\<close>, \<open>.text\<close> and \<open>.get(key)\<close>. A \<open>class_\<close> string matches a tag when it is
  one of the tag's classes or the whole attribute value.
\<close>

datatype node =
  Tag (tag_name: string) (classes: "string list") (attrs: "(string \<times> string) list")
      (children: "node list")
| Text string

fun descendants :: "node \<Rightarrow> node list" where
  "descendants (Tag n cs ats kids) = concat (map (\<lambda>k. k # descendants k) kids)"
| "descendants (Text s) = []"

fun get_text :: "node \<Rightarrow> string" where
  \<comment> \<open>\<open>.text\<close>: the strings below the node, concatenated\<close>
  "get_text (Text s) = s"
| "get_text (Tag n cs ats kids) = concat (map get_text kids)"

fun join :: "string \<Rightarrow> string list \<Rightarrow> string" where
  \<comment> \<open>\<open>sep.join(xs)\<close>\<close>
  "join sep [] = []"
| "join sep [x] = x"
| "join sep (x # y # ys) = x @ sep @ join sep (y # ys)"

definition class_matches :: "string \<Rightarrow> string list \<Rightarrow> bool" where
  "class_matches c cs = (c \<in> set cs \<or> join '' '' cs = c)"

fun matches :: "string \<Rightarrow> string option \<Rightarrow> node \<Rightarrow> bool" where
  "matches name cls (Text s) = False"
| "matches name cls (Tag n cs ats kids) =
     (n = name \<and> (case cls of None \<Rightarrow> True | Some c \<Rightarrow> class_matches c cs))"

definition find_all :: "string \<Rightarrow> string option \<Rightarrow> node \<Rightarrow> node list" where
  "find_all name cls nd = filter (matches name cls) (descendants nd)"

definition find_tag :: "string \<Rightarrow> string option \<Rightarrow> node \<Rightarrow> node option" where
  \<comment> \<open>\<open>nd.find(name, class_=cls)\<close>: the first match of \<open>find_all\<close>, or \<open>None\<close>\<close>
  "find_tag name cls nd = (case find_all name cls nd of [] \<Rightarrow> None | e # _ \<Rightarrow> Some e)"

definition attr_get :: "node \<Rightarrow> string \<Rightarrow> string option" where
  \<comment> \<open>\<open>tag.get(key)\<close>\<close>
  "attr_get nd key = map_of (attrs nd) key"

definition stripped_text :: "node \<Rightarrow> string" where
  \<comment> \<open>\<open>elem.text.strip()\<close>\<close>
  "stripped_text e = strip (get_text e)"

section \<open>The listing extractor\<close>

text \<open>
  \<open>extract_job_info\<close>, lines 39 to 107, field by field in the order of the source.
  A tag is truthy whatever its contents, so \<open>if elem\<close> only tests for \<open>None\<close>.
\<close>

definition sentinel :: string where
  "sentinel = ''N/A''"

definition extract_company :: "node \<Rightarrow> string" where
  "extract_company job_element =
     (case find_tag ''h3'' (Some ''joblist-comp-name'') job_element of
        Some company_elem \<Rightarrow> stripped_text company_elem
      | None \<Rightarrow> sentinel)"

definition extract_job_title :: "node \<Rightarrow> string" where
  "extract_job_title job_element =
     (case find_tag ''h2'' (Some ''heading-trun'') job_element of
        Some job_title_elem \<Rightarrow> stripped_text job_title_elem
      | None \<Rightarrow> sentinel)"

definition extract_skills :: "node \<Rightarrow> string list" where
  "extract_skills job_element =
     (case find_tag ''div'' (Some ''more-skills-sections'') job_element of
        Some skills_section \<Rightarrow> map stripped_text (find_all ''span'' None skills_section)
      | None \<Rightarrow> [])"

definition or_sentinel :: "string \<Rightarrow> string" where
  \<comment> \<open>\<open>if li.text.strip(): field = li.text.strip()\<close>, the field holding the sentinel before\<close>
  "or_sentinel s = (if s \<noteq> [] then s else sentinel)"

definition extract_details :: "node \<Rightarrow> string \<times> string \<times> string" where
  \<comment> \<open>lines 57 to 71; the triple is (\<open>location\<close>, \<open>experience\<close>, \<open>salary\<close>)\<close>
  "extract_details job_element =
     (case find_tag ''ul'' (Some ''top-jd-dtl mt-16 clearfix'') job_element of
        Some tot_elem \<Rightarrow>
          (let li_elements = find_all ''li'' None tot_elem in
           if length li_elements \<ge> 3
           then (or_sentinel (stripped_text (li_elements ! 0)),
                 or_sentinel (stripped_text (li_elements ! 1)),
                 or_sentinel (stripped_text (li_elements ! 2)))
           else (sentinel, sentinel, sentinel))
      | None \<Rightarrow> (sentinel, sentinel, sentinel))"

definition extract_published :: "node \<Rightarrow> string" where
  "extract_published job_element =
     (case find_tag ''span'' (Some ''sim-posted'') job_element of
        Some published_elem \<Rightarrow>
          (case find_tag ''span'' None published_elem of
             Some inner \<Rightarrow> stripped_text inner
           | None \<Rightarrow> sentinel)
      | None \<Rightarrow> sentinel)"

definition extract_more_info :: "node \<Rightarrow> string" where
  "extract_more_info job_element =
     (case find_tag ''a'' None job_element of
        Some link_elem \<Rightarrow>
          (case attr_get link_elem ''href'' of
             Some href \<Rightarrow> if href \<noteq> [] then href else sentinel
           | None \<Rightarrow> sentinel)
      | None \<Rightarrow> sentinel)"

definition extract_job_description :: "node \<Rightarrow> string" where
  "extract_job_description job_element =
     (case find_tag ''li'' (Some ''job-description__'') job_element of
        Some job_elem \<Rightarrow> stripped_text job_elem
      | None \<Rightarrow> sentinel)"

fun extract_job_info :: "node \<Rightarrow> job option" where
  \<comment> \<open>on a string, \<open>job_element.find('h3', class_=...)\<close> is \<open>str.find\<close> and raises
      \<open>TypeError\<close>; line 105 catches it and line 107 returns \<open>None\<close>\<close>
  "extract_job_info (Text s) = None"
| "extract_job_info (Tag n cs ats kids) =
     (let job_element = Tag n cs ats kids;
          company = extract_company job_element;
          job_title = extract_job_title job_element;
          skills_list = extract_skills job_element;
          (location, experience, salary) = extract_details job_element;
          published = extract_published job_element;
          more_info = extract_more_info job_element;
          job_description = extract_job_description job_element
      in Some [(''company'', Str company),
               (''job_title'', Str job_title),
               (''skills'', StrList skills_list),
               (''experience'', Str experience),
               (''salary'', Str salary),
               (''location'', Str location),
               (''job_description'', Str job_description),
               (''posted_date'', Str published),
               (''more_info'', Str more_info)])"

definition field_names :: "string list" where
  "field_names = [''company'', ''job_title'', ''skills'', ''experience'', ''salary'',
     ''location'', ''job_description'', ''posted_date'', ''more_info'']"

section \<open>The URL builder\<close>

text \<open>
  \<open>build_search_url\<close>, lines 17 to 37. The query and the location are what the caller
  passes, any Python \<open>str\<close>; \<open>urllib.parse.quote_plus\<close> depends on more of them than the
  code points below 256, so here a \<open>str\<close> is the list of its code points (\<open>ustr\<close>), and
  \<open>code_points\<close> gives this list for a string of the other model. \<open>quote_plus\<close> encodes
  the string as UTF-8, which raises \<open>UnicodeEncodeError\<close> when a code point is a
  surrogate (only the Unicode scalar values have an encoding; a number from \<open>0x110000\<close>
  on is no code point of any \<open>str\<close>, and fails here as well); then the bytes of letters,
  digits and \<open>_.-~\<close> stay, the byte of a space becomes \<open>+\<close>, and every other byte becomes
  \<open>%XX\<close>. \<open>str_int\<close> is \<open>str(page)\<close>. A raise is the \<open>Inl\<close> of a result.
\<close>

type_synonym ustr = "nat list"

datatype raised = UnicodeEncodeError | NotCaught

definition code_points :: "string \<Rightarrow> ustr" where
  "code_points s = map of_char s"

definition base_url :: string where
  "base_url = ''https://www.timesjobs.com/candidate/job-search.html''"

definition digit_char :: "nat \<Rightarrow> char" where
  "digit_char d = ''0123456789'' ! d"

function str_nat :: "nat \<Rightarrow> string" where
  "str_nat n = (if n < 10 then [digit_char n] else str_nat (n div 10) @ [digit_char (n mod 10)])"
  by pat_completeness auto
termination
  by (relation "measure (\<lambda>n. n)") auto

declare str_nat.simps [simp del]

definition str_int :: "int \<Rightarrow> string" where
  "str_int i = (if i < 0 then CHR ''-'' # str_nat (nat (- i)) else str_nat (nat i))"

definition scalar_value :: "nat \<Rightarrow> bool" where
  \<comment> \<open>below \<open>0x110000\<close> and outside the surrogates \<open>0xD800\<close> to \<open>0xDFFF\<close>\<close>
  "scalar_value cp = (cp < 55296 \<or> (57343 < cp \<and> cp < 1114112))"

definition utf8 :: "nat \<Rightarrow> nat list option" where
  \<comment> \<open>the bytes of one code point, \<open>None\<close> when it has no encoding\<close>
  "utf8 cp =
     (if cp < 128 then Some [cp]
      else if cp < 2048 then Some [192 + cp div 64, 128 + cp mod 64]
      else if cp < 55296 \<or> (57343 < cp \<and> cp < 65536)
        then Some [224 + cp div 4096, 128 + cp div 64 mod 64, 128 + cp mod 64]
      else if 65536 \<le> cp \<and> cp < 1114112
        then Some [240 + cp div 262144, 128 + cp div 4096 mod 64, 128 + cp div 64 mod 64,
                   128 + cp mod 64]
      else None)"

fun encode_utf8 :: "ustr \<Rightarrow> raised + nat list" where
  \<comment> \<open>\<open>s.encode('utf-8', 'strict')\<close>\<close>
  "encode_utf8 [] = Inr []"
| "encode_utf8 (cp # s) =
     (case utf8 cp of
        None \<Rightarrow> Inl UnicodeEncodeError
      | Some bytes \<Rightarrow>
          (case encode_utf8 s of Inl e \<Rightarrow> Inl e | Inr rest \<Rightarrow> Inr (bytes @ rest)))"

definition encoded :: "ustr \<Rightarrow> nat list" where
  \<comment> \<open>the bytes of a string that has an encoding\<close>
  "encoded s = concat (map (\<lambda>cp. case utf8 cp of None \<Rightarrow> [] | Some bytes \<Rightarrow> bytes) s)"

definition always_safe :: "char \<Rightarrow> bool" where
  "always_safe c = (c \<in> set
     ''ABCDEFGHIJKLMNOPQRSTUVWXYZabcdefghijklmnopqrstuvwxyz0123456789_.-~'')"

definition hex_digit :: "nat \<Rightarrow> char" where
  "hex_digit d = ''0123456789ABCDEF'' ! d"

definition percent :: "nat \<Rightarrow> string" where
  "percent b = [CHR ''%'', hex_digit (b div 16), hex_digit (b mod 16)]"

definition quote_byte :: "nat \<Rightarrow> string" where
  "quote_byte b =
     (if always_safe (char_of b) then [char_of b]
      else if b = 32 then ''+''
      else percent b)"

definition quote_from_bytes :: "nat list \<Rightarrow> string" where
  "quote_from_bytes bytes = concat (map quote_byte bytes)"

definition quote_plus :: "ustr \<Rightarrow> raised + string" where
  "quote_plus s =
     (case encode_utf8 s of
        Inl e \<Rightarrow> Inl e
      | Inr bytes \<Rightarrow> Inr (quote_from_bytes bytes))"

definition quoted :: "ustr \<Rightarrow> string" where
  \<comment> \<open>what \<open>quote_plus\<close> returns for a string that has an encoding\<close>
  "quoted s = quote_from_bytes (encoded s)"

definition params :: "ustr \<Rightarrow> ustr \<Rightarrow> int \<Rightarrow> (string \<times> ustr) list" where
  \<comment> \<open>the dict of lines 19 to 34, in insertion order\<close>
  "params search_query location page =
     [(''from'', code_points ''submit''),
      (''luceneResultSize'', code_points ''25''),
      (''txtKeywords'', search_query),
      (''postWeek'', code_points ''60''),
      (''searchType'', code_points ''personalizedSearch''),
      (''actualTxtKeywords'', search_query),
      (''searchBy'', code_points ''0''),
      (''rdoOperator'', code_points ''OR''),
      (''pDate'', code_points ''I''),
      (''sequence'', code_points (str_int page)),
      (''startPage'', code_points ''1'')]
     @ (if location \<noteq> [] then [(''txtLocation'', location)] else [])"

fun quote_params :: "(string \<times> ustr) list \<Rightarrow> raised + string list" where
  \<comment> \<open>the list comprehension of line 36: the first value that fails to encode raises\<close>
  "quote_params [] = Inr []"
| "quote_params ((key, value) # rest) =
     (case quote_plus value of
        Inl e \<Rightarrow> Inl e
      | Inr quoted_value \<Rightarrow>
          (case quote_params rest of
             Inl e \<Rightarrow> Inl e
           | Inr parts \<Rightarrow> Inr ((key @ ''='' @ quoted_value) # parts)))"

definition build_search_url :: "ustr \<Rightarrow> ustr \<Rightarrow> int \<Rightarrow> raised + string" where
  "build_search_url search_query location page =
     (case quote_params (params search_query location page) of
        Inl e \<Rightarrow> Inl e
      | Inr parts \<Rightarrow> Inr (base_url @ ''?'' @ join ''&'' parts))"


section \<open>Pagination and the pipeline\<close>

text \<open>
  \<open>scrape_jobs\<close>, lines 128 to 176. The network is a parameter \<open>fetch\<close>: for a URL, what
  lines 141 to 144 (\<open>session.get\<close>, \<open>raise_for_status\<close>, the parse) come to. They raise
  a \<open>requests.RequestException\<close> (line 164 catches it), raise another \<open>Exception\<close> (line
  167 catches it), raise what is no \<open>Exception\<close>, such as \<open>KeyboardInterrupt\<close> (nothing
  catches it: it leaves \<open>scrape_jobs\<close>), or give the parsed page. The URL is built on
  line 137, before the \<open>try\<close> of line 139, so a raise of \<open>build_search_url\<close> leaves
  \<open>scrape_jobs\<close> too. The state of the loop is \<open>all_jobs\<close> and, for the line printed
  before every request, the pages requested so far.
\<close>

datatype outcome = RequestException | OtherException | NotAnException | Soup node

record scrape_state =
  all_jobs :: "job list"
  requested :: "int list"

fun extract_loop :: "node list \<Rightarrow> job list \<Rightarrow> job list" where
  \<comment> \<open>lines 153 to 157; \<open>if job_info\<close> holds for a dict that is not empty\<close>
  "extract_loop [] page_jobs = page_jobs"
| "extract_loop (job_element # rest) page_jobs =
     (case extract_job_info job_element of
        Some job_info \<Rightarrow>
          if job_info \<noteq> [] then extract_loop rest (page_jobs @ [job_info])
          else extract_loop rest page_jobs
      | None \<Rightarrow> extract_loop rest page_jobs)"

definition listing_marker :: string where
  "listing_marker = ''clearfix job-bx wht-shd-bx''"

fun scrape_pages ::
  "(string \<Rightarrow> outcome) \<Rightarrow> ustr \<Rightarrow> ustr \<Rightarrow> int list \<Rightarrow> scrape_state \<Rightarrow> raised + scrape_state"
where
  "scrape_pages fetch search_query location [] st = Inr st"
| "scrape_pages fetch search_query location (page # pages) st =
     (case build_search_url search_query location page of
        Inl e \<Rightarrow> Inl e
      | Inr url \<Rightarrow>
          (let st1 = st\<lparr>requested := requested st @ [page]\<rparr>
           in case fetch url of
                RequestException \<Rightarrow> scrape_pages fetch search_query location pages st1
              | OtherException \<Rightarrow> scrape_pages fetch search_query location pages st1
              | NotAnException \<Rightarrow> Inl NotCaught
              | Soup soup \<Rightarrow>
                  (let job_elements = find_all ''li'' (Some listing_marker) soup in
                   if job_elements = [] then Inr st1
                   else scrape_pages fetch search_query location pages
                          (st1\<lparr>all_jobs := all_jobs st1 @ extract_loop job_elements []\<rparr>))))"

definition collect ::
  "(string \<Rightarrow> outcome) \<Rightarrow> ustr \<Rightarrow> ustr \<Rightarrow> int \<Rightarrow> raised + scrape_state" where
  \<comment> \<open>lines 134 to 169: \<open>all_jobs = []\<close> and the loop over \<open>range(1, max_pages + 1)\<close>\<close>
  "collect fetch search_query location max_pages =
     scrape_pages fetch search_query location [1..max_pages]
       \<lparr>all_jobs = [], requested = []\<rparr>"

definition scrape_jobs ::
  "(string \<Rightarrow> outcome) \<Rightarrow> ustr \<Rightarrow> ustr \<Rightarrow> string list option \<Rightarrow> int \<Rightarrow> raised + job list"
where
  "scrape_jobs fetch search_query location unfamiliar_skills max_pages =
     (let unfamiliar = (case unfamiliar_skills of None \<Rightarrow> [] | Some us \<Rightarrow> us) in
      case collect fetch search_query location max_pages of
        Inl e \<Rightarrow> Inl e
      | Inr st \<Rightarrow> Inr (filter_jobs_by_skills (all_jobs st) unfamiliar))"

text \<open>
  What one page comes to in a run: the outcome of its pass through the loop (the raise
  of the URL builder, or what the request gives), the listing fragments found on it (none
  when the request or the parse raised), whether it is a page that ends pagination
  (fetched, and without a listing), the records it adds to \<open>all_jobs\<close>, and whether its
  pass raises what \<open>scrape_jobs\<close> does not catch.
\<close>

definition page_outcome ::
  "(string \<Rightarrow> outcome) \<Rightarrow> ustr \<Rightarrow> ustr \<Rightarrow> int \<Rightarrow> raised + outcome" where
  "page_outcome fetch search_query location page =
     (case build_search_url search_query location page of
        Inl e \<Rightarrow> Inl e
      | Inr url \<Rightarrow> Inr (fetch url))"

definition listings :: "(string \<Rightarrow> outcome) \<Rightarrow> ustr \<Rightarrow> ustr \<Rightarrow> int \<Rightarrow> node list" where
  "listings fetch search_query location page =
     (case page_outcome fetch search_query location page of
        Inr (Soup soup) \<Rightarrow> find_all ''li'' (Some listing_marker) soup
      | _ \<Rightarrow> [])"

definition empty_page :: "(string \<Rightarrow> outcome) \<Rightarrow> ustr \<Rightarrow> ustr \<Rightarrow> int \<Rightarrow> bool" where
  "empty_page fetch search_query location page =
     (case page_outcome fetch search_query location page of
        Inr (Soup soup) \<Rightarrow> find_all ''li'' (Some listing_marker) soup = []
      | _ \<Rightarrow> False)"

definition page_records :: "(string \<Rightarrow> outcome) \<Rightarrow> ustr \<Rightarrow> ustr \<Rightarrow> int \<Rightarrow> job list" where
  "page_records fetch search_query location page =
     extract_loop (listings fetch search_query location page) []"

definition uncaught :: "(string \<Rightarrow> outcome) \<Rightarrow> ustr \<Rightarrow> ustr \<Rightarrow> int \<Rightarrow> bool" where
  "uncaught fetch search_query location page =
     (case page_outcome fetch search_query location page of
        Inl e \<Rightarrow> True
      | Inr out \<Rightarrow> out = NotAnException)"

section \<open>Notions of the specification\<close>

text \<open>
  The child tags of a node (its children that are tags), and the \<open>span\<close> tags below a
  node at any depth, in document order.
\<close>

definition child_tags :: "node \<Rightarrow> node list" where
  "child_tags nd = filter (\<lambda>k. case k of Tag n cs ats kids \<Rightarrow> True | Text s \<Rightarrow> False) (children nd)"

definition span_tags_inside :: "node \<Rightarrow> node list" where
  "span_tags_inside container =
     filter (\<lambda>k. case k of Tag n cs ats kids \<Rightarrow> n = ''span'' | Text s \<Rightarrow> False)
       (descendants container)"


section \<open>Example data\<close>

definition example_job :: "string \<Rightarrow> string list \<Rightarrow> job" where
  \<comment> \<open>a record with a title and skills, every other field at the sentinel\<close>
  "example_job title skills =
     [(''company'', Str ''N/A''), (''job_title'', Str title), (''skills'', StrList skills),
      (''experience'', Str ''N/A''), (''salary'', Str ''N/A''), (''location'', Str ''N/A''),
      (''job_description'', Str ''N/A''), (''posted_date'', Str ''N/A''),
      (''more_info'', Str ''N/A'')]"

text \<open>
  A listing with only the detail list, whose second item is blank and whose third item
  holds an icon before its text; and a listing with only a skills container.
\<close>

definition detail_fragment :: node where
  "detail_fragment =
     Tag ''li'' [''clearfix'', ''job-bx'', ''wht-shd-bx''] []
       [Tag ''ul'' [''top-jd-dtl'', ''mt-16'', ''clearfix''] []
          [Tag ''li'' [] [] [Text '' Pune ''],
           Tag ''li'' [] [] [Text ''  ''],
           Tag ''li'' [] [] [Tag ''i'' [] [] [], Text ''5 LPA'']]]"

definition skills_fragment :: "node list \<Rightarrow> node" where
  "skills_fragment kids =
     Tag ''li'' [''clearfix'', ''job-bx'', ''wht-shd-bx''] []
       [Tag ''div'' [''more-skills-sections''] [] kids]"

definition detail_record :: job where
  "detail_record =
     [(''company'', Str ''N/A''), (''job_title'', Str ''N/A''), (''skills'', StrList []),
      (''experience'', Str ''N/A''), (''salary'', Str ''5 LPA''), (''location'', Str ''Pune''),
      (''job_description'', Str ''N/A''), (''posted_date'', Str ''N/A''),
      (''more_info'', Str ''N/A'')]"

text \<open>
  Pages and fake fetchers: a listing with only a title, a results page around some
  listings, and a fetcher that answers from a table of pages (for the query
  \<open>python\<close> and no location) and raises what nothing catches on any other request.
\<close>

definition listing :: "string \<Rightarrow> node" where
  "listing title =
     Tag ''li'' [''clearfix'', ''job-bx'', ''wht-shd-bx''] []
       [Tag ''h2'' [''heading-trun''] [] [Text title]]"

definition results_page :: "node list \<Rightarrow> node" where
  "results_page items = Tag ''[document]'' [] [] [Tag ''html'' [] [] [Tag ''ul'' [] [] items]]"

definition python :: ustr where
  "python = code_points ''python''"

definition python_url :: "int \<Rightarrow> string" where
  \<comment> \<open>the URL of a page of the search for \<open>python\<close>\<close>
  "python_url page =
     ''https://www.timesjobs.com/candidate/job-search.html?from=submit&luceneResultSize=25&txtKeywords=python&postWeek=60&searchType=personalizedSearch&actualTxtKeywords=python&searchBy=0&rdoOperator=OR&pDate=I&sequence=''
     @ str_int page @ ''&startPage=1''"

definition fake_fetch :: "(int \<times> outcome) list \<Rightarrow> string \<Rightarrow> outcome" where
  "fake_fetch table url =
     (case List.find (\<lambda>(page, out). build_search_url python [] page = Inr url) table of
        Some (page, out) \<Rightarrow> out
      | None \<Rightarrow> NotAnException)"

definition refusing_fetch :: "string \<Rightarrow> outcome" where
  \<comment> \<open>a network on which every request raises a \<open>RequestException\<close>\<close>
  "refusing_fetch url = RequestException"

definition stop_table :: "(int \<times> outcome) list" where
  "stop_table = [(1, Soup (results_page [listing ''a'', listing ''b''])),
                 (2, Soup (results_page []))]"

definition error_table :: "(int \<times> outcome) list" where
  "error_table = [(1, Soup (results_page [listing ''a''])),
                  (2, RequestException),
                  (3, Soup (results_page [listing ''c'']))]"

definition barren_table :: "(int \<times> outcome) list" where
  "barren_table = [(1, RequestException), (2, OtherException), (3, Soup (results_page []))]"

section \<open>Properties of strings\<close>

lemma contains_iff_sublist: "contains sub s \<longleftrightarrow> sublist sub s"
  by (induction s) (simp_all add: sublist_Cons_right)

lemma contains_Nil: "contains [] s"
  by (simp add: contains_iff_sublist)

lemma isspace_lower_char: "isspace (lower_char c) = isspace c"
proof (cases "isupper c")
  case False
  then show ?thesis by (simp add: lower_char_def)
next
  case True
  let ?n = "of_char c :: nat"
  have up: "(65 \<le> ?n \<and> ?n \<le> 90) \<or> (192 \<le> ?n \<and> ?n \<le> 222 \<and> ?n \<noteq> 215)"
    using True by (simp add: isupper_def Let_def)
  then have small: "?n + 32 < 256" by arith
  have "of_char (char_of (?n + 32)) = ?n + 32"
    using small by (simp add: of_char_of)
  then have "isspace (lower_char c) = (?n + 32 \<in> {9, 10, 11, 12, 13, 28, 29, 30, 31, 32, 133, 160 :: nat})"
    using True by (simp add: lower_char_def isspace_def)
  also have "\<dots> = False" using up by auto
  also have "False = isspace c" using up by (auto simp: isspace_def)
  finally show ?thesis .
qed

lemma dropWhile_isspace_lower:
  "dropWhile isspace (lower s) = lower (dropWhile isspace s)"
  by (induction s) (simp_all add: lower_def isspace_lower_char)

lemma strip_lower: "strip (lower s) = lower (strip s)"
proof -
  have "rev (lower s) = lower (rev s)" for s
    by (simp add: lower_def rev_map)
  then show ?thesis
    by (simp add: strip_def dropWhile_isspace_lower)
qed

lemma strip_lower_empty: "strip (lower s) = [] \<longleftrightarrow> strip s = []"
  unfolding strip_lower by (simp add: lower_def)

section \<open>Properties of the filter\<close>

lemma has_unfamiliar_iff_excluded: "has_unfamiliar unfamiliar_skills j = excluded unfamiliar_skills j"
  by (auto simp: has_unfamiliar_def excluded_def list_ex_iff contains_iff_sublist)

lemma filter_loop_eq:
  "filter_loop jobs us acc = acc @ filter (\<lambda>j. \<not> has_unfamiliar us j) jobs"
  by (induction jobs arbitrary: acc) simp_all

lemma filter_jobs_by_skills_eq:
  "filter_jobs_by_skills jobs us = filter (\<lambda>j. \<not> has_unfamiliar us j) jobs"
  by (simp add: filter_jobs_by_skills_def filter_loop_eq)

lemma excluded_no_tokens: "skill_tokens j = [] \<Longrightarrow> \<not> excluded us j"
  by (simp add: excluded_def)

lemma excluded_blank_entry:
  assumes "u \<in> set us" and "strip u = []" and "skill_tokens j \<noteq> []"
  shows "excluded us j"
proof -
  from assms(3) obtain tok where tok: "tok \<in> set (skill_tokens j)"
    by (cases "skill_tokens j") auto
  have "strip (lower u) = []" using assms(2) by (simp add: strip_lower_empty)
  then have "sublist (strip (lower u)) (lower tok)" by simp
  with assms(1) tok show ?thesis unfolding excluded_def by blast
qed

text \<open>
  Claim C1. \<open>filter_jobs_by_skills\<close> returns the input records, in input order and
  unchanged, for which no entry of the unfamiliar skills, lower-cased and trimmed, is a
  substring of a skill token lower-cased (\<open>excluded\<close> is this condition, in the
  specification's words); with no unfamiliar skills the output is the input.
\<close>

theorem filter_jobs_by_skills_spec:
  "filter_jobs_by_skills jobs unfamiliar_skills
     = filter (\<lambda>j. \<not> excluded unfamiliar_skills j) jobs
   \<and> filter_jobs_by_skills jobs [] = jobs"
  by (simp add: filter_jobs_by_skills_eq has_unfamiliar_iff_excluded excluded_def)

text \<open>
  The example of the specification: skills \<open>["Python", "Go"]\<close> and \<open>["JavaScript"]\<close>
  against \<open>["java"]\<close>; the second record is excluded, the first is kept.
\<close>

theorem filter_jobs_by_skills_spec_witness:
  "filter (\<lambda>j. \<not> excluded [''java''] j)
     [example_job ''a'' [''Python'', ''Go''], example_job ''b'' [''JavaScript'']]
   = [example_job ''a'' [''Python'', ''Go'']]"
proof -
  have "filter_jobs_by_skills
          [example_job ''a'' [''Python'', ''Go''], example_job ''b'' [''JavaScript'']] [''java'']
        = [example_job ''a'' [''Python'', ''Go'']]"
    by code_simp
  then show ?thesis
    using filter_jobs_by_skills_spec
      [of "[example_job ''a'' [''Python'', ''Go''], example_job ''b'' [''JavaScript'']]"
          "[''java'']"]
    by simp
qed

text \<open>
  Claim C9. Filtering the output of \<open>filter_jobs_by_skills\<close> again, with the same
  unfamiliar skills, returns the same list.
\<close>

theorem filter_jobs_by_skills_idempotent:
  "filter_jobs_by_skills (filter_jobs_by_skills jobs unfamiliar_skills) unfamiliar_skills
   = filter_jobs_by_skills jobs unfamiliar_skills"
  by (simp add: filter_jobs_by_skills_eq)

theorem filter_jobs_by_skills_idempotent_witness:
  "filter_jobs_by_skills [example_job ''a'' [''Python'', ''Go'']] [''java'']
   = [example_job ''a'' [''Python'', ''Go'']]"
proof -
  have "filter_jobs_by_skills
          [example_job ''a'' [''Python'', ''Go''], example_job ''b'' [''JavaScript'']] [''java'']
        = [example_job ''a'' [''Python'', ''Go'']]"
    by code_simp
  then show ?thesis
    using filter_jobs_by_skills_idempotent
      [of "[example_job ''a'' [''Python'', ''Go''], example_job ''b'' [''JavaScript'']]"
          "[''java'']"]
    by simp
qed

text \<open>
  Claim C10. A record with no skill tokens is kept whatever the unfamiliar skills are;
  and when an entry of the unfamiliar skills is empty after trimming, no record with a
  skill token is kept, the empty string being a substring of every token.
\<close>

theorem empty_skills_kept_blank_entry_excludes:
  "(j \<in> set jobs \<and> skill_tokens j = [] \<longrightarrow> j \<in> set (filter_jobs_by_skills jobs us)) \<and>
   (u \<in> set us \<and> strip u = [] \<and> skill_tokens j' \<noteq> []
      \<longrightarrow> j' \<notin> set (filter_jobs_by_skills jobs us))"
  by (auto simp: filter_jobs_by_skills_eq has_unfamiliar_iff_excluded
           dest: excluded_no_tokens excluded_blank_entry)

theorem empty_skills_kept_blank_entry_excludes_witness:
  "example_job ''a'' [] \<in> set (filter_jobs_by_skills
      [example_job ''a'' [], example_job ''b'' [''Go'']] [''java'', ''  ''])
   \<and> example_job ''b'' [''Go''] \<notin> set (filter_jobs_by_skills
      [example_job ''a'' [], example_job ''b'' [''Go'']] [''java'', ''  ''])"
proof -
  have a: "skill_tokens (example_job ''a'' []) = []" by code_simp
  have b: "skill_tokens (example_job ''b'' [''Go'']) \<noteq> []" by code_simp
  have s: "strip ''  '' = []" by code_simp
  show ?thesis
    using empty_skills_kept_blank_entry_excludes
      [of "example_job ''a'' []" "[example_job ''a'' [], example_job ''b'' [''Go'']]"
          "[''java'', ''  '']" "''  ''" "example_job ''b'' [''Go'']"] a b s
    by simp
qed

section \<open>Properties of the listing extractor\<close>

lemma extract_job_info_Tag:
  "extract_job_info (Tag n cs ats kids) =
     Some [(''company'', Str (extract_company (Tag n cs ats kids))),
           (''job_title'', Str (extract_job_title (Tag n cs ats kids))),
           (''skills'', StrList (extract_skills (Tag n cs ats kids))),
           (''experience'', Str (fst (snd (extract_details (Tag n cs ats kids))))),
           (''salary'', Str (snd (snd (extract_details (Tag n cs ats kids))))),
           (''location'', Str (fst (extract_details (Tag n cs ats kids)))),
           (''job_description'', Str (extract_job_description (Tag n cs ats kids))),
           (''posted_date'', Str (extract_published (Tag n cs ats kids))),
           (''more_info'', Str (extract_more_info (Tag n cs ats kids)))]"
  by (simp add: Let_def split: prod.splits)

lemma extract_job_info_None: "extract_job_info frag = None \<longleftrightarrow> (\<exists>s. frag = Text s)"
  by (cases frag) (simp_all add: extract_job_info_Tag del: extract_job_info.simps(2))

lemma find_all_span: "find_all ''span'' None container = span_tags_inside container"
proof -
  have "matches ''span'' None = (\<lambda>k. case k of Tag n cs ats kids \<Rightarrow> n = ''span'' | Text s \<Rightarrow> False)"
  proof
    fix k show "matches ''span'' None k = (case k of Tag n cs ats kids \<Rightarrow> n = ''span'' | Text s \<Rightarrow> False)"
      by (cases k) auto
  qed
  then show ?thesis by (simp add: find_all_def span_tags_inside_def)
qed

text \<open>
  Claim C2. \<open>extract_job_info\<close> returns either nothing, and then the fragment is one on
  which extraction raises (a string, not a tag), or a record with all nine fields, in
  which every field whose lookup fails holds the sentinel \<open>N/A\<close> (\<open>skills\<close> the empty
  list); there is no third outcome, so no partly filled record.
\<close>

theorem extract_job_info_complete_or_nothing:
  "(case extract_job_info frag of
      None \<Rightarrow> \<exists>s. frag = Text s
    | Some r \<Rightarrow>
        (\<forall>s. frag \<noteq> Text s) \<and>
        map fst r = [''company'', ''job_title'', ''skills'', ''experience'', ''salary'',
                     ''location'', ''job_description'', ''posted_date'', ''more_info''] \<and>
        (find_tag ''h3'' (Some ''joblist-comp-name'') frag = None
           \<longrightarrow> map_of r ''company'' = Some (Str ''N/A'')) \<and>
        (find_tag ''h2'' (Some ''heading-trun'') frag = None
           \<longrightarrow> map_of r ''job_title'' = Some (Str ''N/A'')) \<and>
        (find_tag ''div'' (Some ''more-skills-sections'') frag = None
           \<longrightarrow> map_of r ''skills'' = Some (StrList [])) \<and>
        (find_tag ''ul'' (Some ''top-jd-dtl mt-16 clearfix'') frag = None
           \<longrightarrow> map_of r ''experience'' = Some (Str ''N/A'')
             \<and> map_of r ''salary'' = Some (Str ''N/A'')
             \<and> map_of r ''location'' = Some (Str ''N/A'')) \<and>
        (find_tag ''li'' (Some ''job-description__'') frag = None
           \<longrightarrow> map_of r ''job_description'' = Some (Str ''N/A'')) \<and>
        (find_tag ''span'' (Some ''sim-posted'') frag = None
           \<longrightarrow> map_of r ''posted_date'' = Some (Str ''N/A'')) \<and>
        (find_tag ''a'' None frag = None
           \<longrightarrow> map_of r ''more_info'' = Some (Str ''N/A'')))"
proof (cases frag)
  case (Text s)
  then show ?thesis by simp
next
  case (Tag n cs ats kids)
  show ?thesis
    unfolding Tag extract_job_info_Tag
    by (simp add: extract_company_def extract_job_title_def extract_skills_def
        extract_details_def extract_job_description_def extract_published_def
        extract_more_info_def sentinel_def)
qed

theorem extract_job_info_complete_or_nothing_witness:
  "case extract_job_info detail_fragment of
     None \<Rightarrow> False
   | Some r \<Rightarrow>
       map fst r = [''company'', ''job_title'', ''skills'', ''experience'', ''salary'',
                    ''location'', ''job_description'', ''posted_date'', ''more_info''] \<and>
       map_of r ''company'' = Some (Str ''N/A'') \<and>
       map_of r ''job_title'' = Some (Str ''N/A'') \<and>
       map_of r ''skills'' = Some (StrList []) \<and>
       map_of r ''job_description'' = Some (Str ''N/A'') \<and>
       map_of r ''posted_date'' = Some (Str ''N/A'') \<and>
       map_of r ''more_info'' = Some (Str ''N/A'')"
proof -
  have 1: "find_tag ''h3'' (Some ''joblist-comp-name'') detail_fragment = None" by code_simp
  have 2: "find_tag ''h2'' (Some ''heading-trun'') detail_fragment = None" by code_simp
  have 3: "find_tag ''div'' (Some ''more-skills-sections'') detail_fragment = None" by code_simp
  have 4: "find_tag ''li'' (Some ''job-description__'') detail_fragment = None" by code_simp
  have 5: "find_tag ''span'' (Some ''sim-posted'') detail_fragment = None" by code_simp
  have 6: "find_tag ''a'' None detail_fragment = None" by code_simp
  have 7: "\<forall>s. detail_fragment \<noteq> Text s" by (simp add: detail_fragment_def)
  show ?thesis
    using extract_job_info_complete_or_nothing [of detail_fragment] 1 2 3 4 5 6 7
    by (simp split: option.splits)
qed

text \<open>
  Claim C7. \<open>experience\<close>, \<open>salary\<close> and \<open>location\<close> come from the detail list only
  when it has at least 3 items (the \<open>li\<close> tags found in it); when the list is absent or
  has fewer than 3 items all three hold the sentinel, and with at least 3 items each
  position on its own holds the sentinel when its trimmed text is blank.
\<close>

theorem detail_fields:
  assumes "extract_job_info frag = Some r"
  shows "case find_tag ''ul'' (Some ''top-jd-dtl mt-16 clearfix'') frag of
           None \<Rightarrow> map_of r ''experience'' = Some (Str ''N/A'')
                 \<and> map_of r ''salary'' = Some (Str ''N/A'')
                 \<and> map_of r ''location'' = Some (Str ''N/A'')
         | Some detail_list \<Rightarrow>
             (let items = find_all ''li'' None detail_list in
              if length items < 3
              then map_of r ''experience'' = Some (Str ''N/A'')
                 \<and> map_of r ''salary'' = Some (Str ''N/A'')
                 \<and> map_of r ''location'' = Some (Str ''N/A'')
              else map_of r ''location'' = Some (Str
                     (if stripped_text (items ! 0) = [] then ''N/A'' else stripped_text (items ! 0)))
                 \<and> map_of r ''experience'' = Some (Str
                     (if stripped_text (items ! 1) = [] then ''N/A'' else stripped_text (items ! 1)))
                 \<and> map_of r ''salary'' = Some (Str
                     (if stripped_text (items ! 2) = [] then ''N/A'' else stripped_text (items ! 2))))"
proof (cases frag)
  case (Text s)
  with assms show ?thesis by simp
next
  case (Tag n cs ats kids)
  from assms have r: "r = the (extract_job_info (Tag n cs ats kids))"
    unfolding Tag by simp
  show ?thesis
    unfolding r extract_job_info_Tag Tag
    by (simp add: extract_details_def or_sentinel_def sentinel_def Let_def
             split: option.splits)
qed

theorem detail_fields_witness:
  "extract_job_info detail_fragment = Some detail_record
   \<and> map_of detail_record ''location'' = Some (Str ''Pune'')
   \<and> map_of detail_record ''experience'' = Some (Str ''N/A'')
   \<and> map_of detail_record ''salary'' = Some (Str ''5 LPA'')"
proof -
  have e: "extract_job_info detail_fragment = Some detail_record"
    by code_simp
  have f: "find_tag ''ul'' (Some ''top-jd-dtl mt-16 clearfix'') detail_fragment = Some
     (Tag ''ul'' [''top-jd-dtl'', ''mt-16'', ''clearfix''] []
          [Tag ''li'' [] [] [Text '' Pune ''],
           Tag ''li'' [] [] [Text ''  ''],
           Tag ''li'' [] [] [Tag ''i'' [] [] [], Text ''5 LPA'']])"
    by code_simp
  have g: "find_all ''li'' None (Tag ''ul'' [''top-jd-dtl'', ''mt-16'', ''clearfix''] []
          [Tag ''li'' [] [] [Text '' Pune ''],
           Tag ''li'' [] [] [Text ''  ''],
           Tag ''li'' [] [] [Tag ''i'' [] [] [], Text ''5 LPA'']])
     = [Tag ''li'' [] [] [Text '' Pune ''],
           Tag ''li'' [] [] [Text ''  ''],
           Tag ''li'' [] [] [Tag ''i'' [] [] [], Text ''5 LPA'']]"
    by code_simp
  have t0: "stripped_text (Tag ''li'' [] [] [Text '' Pune '']) = ''Pune''" by code_simp
  have t1: "stripped_text (Tag ''li'' [] [] [Text ''  '']) = []" by code_simp
  have t2: "stripped_text (Tag ''li'' [] [] [Tag ''i'' [] [] [], Text ''5 LPA'']) = ''5 LPA''"
    by code_simp
  show ?thesis
    using detail_fields [OF e] e by (simp add: f g t0 t1 t2 Let_def)
qed

text \<open>
  Claim C8 as stated fails: a skills container whose one child tag is a \<open>b\<close> tag with
  the text \<open>Go\<close> exists, its child tags have the trimmed texts \<open>["Go"]\<close>, and the
  extracted skills are empty, since line 54 asks for \<open>span\<close> tags only.
\<close>

theorem skills_child_tag_counterexample:
  "find_tag ''div'' (Some ''more-skills-sections'') (skills_fragment [Tag ''b'' [] [] [Text ''Go'']])
     = Some (Tag ''div'' [''more-skills-sections''] [] [Tag ''b'' [] [] [Text ''Go'']])
   \<and> map stripped_text (child_tags (Tag ''div'' [''more-skills-sections''] [] [Tag ''b'' [] [] [Text ''Go'']]))
     = [''Go'']
   \<and> map_option skill_tokens (extract_job_info (skills_fragment [Tag ''b'' [] [] [Text ''Go'']]))
     = Some []"
  by code_simp

text \<open>
  Claim C8, amended. When the skills container exists, every \<open>span\<close> tag below it, at
  any depth and in document order, gives one skill token, its trimmed text, with
  duplicates kept; when the container is absent the skills are empty.
\<close>

theorem skills_from_span_tags:
  assumes "extract_job_info frag = Some r"
  shows "skill_tokens r =
     (case find_tag ''div'' (Some ''more-skills-sections'') frag of
        None \<Rightarrow> []
      | Some container \<Rightarrow> map stripped_text (span_tags_inside container))"
proof (cases frag)
  case (Text s)
  with assms show ?thesis by simp
next
  case (Tag n cs ats kids)
  from assms have r: "r = the (extract_job_info (Tag n cs ats kids))"
    unfolding Tag by simp
  show ?thesis
    unfolding r extract_job_info_Tag Tag
    by (simp add: skill_tokens_def dict_get_def extract_skills_def find_all_span
             split: option.splits)
qed

text \<open>
  The example of the specification, with \<open>span\<close> tags: the texts \<open>Go\<close>, \<open>SQL\<close>, \<open>Go\<close>
  give the skills \<open>["Go", "SQL", "Go"]\<close>.
\<close>

theorem skills_from_span_tags_witness:
  "skill_tokens
     [(''company'', Str ''N/A''), (''job_title'', Str ''N/A''),
      (''skills'', StrList [''Go'', ''SQL'', ''Go'']),
      (''experience'', Str ''N/A''), (''salary'', Str ''N/A''), (''location'', Str ''N/A''),
      (''job_description'', Str ''N/A''), (''posted_date'', Str ''N/A''),
      (''more_info'', Str ''N/A'')]
   = map stripped_text (span_tags_inside (Tag ''div'' [''more-skills-sections''] []
       [Tag ''span'' [] [] [Text ''Go''], Tag ''span'' [] [] [Text '' SQL''],
        Tag ''span'' [] [] [Text ''Go'']]))"
proof -
  have e: "extract_job_info (skills_fragment
       [Tag ''span'' [] [] [Text ''Go''], Tag ''span'' [] [] [Text '' SQL''],
        Tag ''span'' [] [] [Text ''Go'']]) = Some
     [(''company'', Str ''N/A''), (''job_title'', Str ''N/A''),
      (''skills'', StrList [''Go'', ''SQL'', ''Go'']),
      (''experience'', Str ''N/A''), (''salary'', Str ''N/A''), (''location'', Str ''N/A''),
      (''job_description'', Str ''N/A''), (''posted_date'', Str ''N/A''),
      (''more_info'', Str ''N/A'')]"
    by code_simp
  have f: "find_tag ''div'' (Some ''more-skills-sections'') (skills_fragment
       [Tag ''span'' [] [] [Text ''Go''], Tag ''span'' [] [] [Text '' SQL''],
        Tag ''span'' [] [] [Text ''Go'']])
    = Some (Tag ''div'' [''more-skills-sections''] []
       [Tag ''span'' [] [] [Text ''Go''], Tag ''span'' [] [] [Text '' SQL''],
        Tag ''span'' [] [] [Text ''Go'']])"
    by code_simp
  show ?thesis
    using skills_from_span_tags [OF e] by (simp add: f)
qed

section \<open>Properties of the URL builder\<close>

lemma code_points_scalar: "list_all scalar_value (code_points s)"
proof -
  have "scalar_value (of_char c)" for c :: char
  proof -
    have "of_char c < (256 :: nat)" by simp
    then show ?thesis unfolding scalar_value_def by linarith
  qed
  then show ?thesis by (simp add: code_points_def list_all_iff)
qed

lemma utf8_None_iff: "utf8 cp = None \<longleftrightarrow> \<not> scalar_value cp"
  unfolding utf8_def scalar_value_def by (simp split: if_splits) linarith


lemma encode_utf8_scalar: "list_all scalar_value s \<Longrightarrow> encode_utf8 s = Inr (encoded s)"
proof (induction s)
  case Nil
  show ?case by (simp add: encoded_def)
next
  case (Cons cp s)
  from Cons.prems have "utf8 cp \<noteq> None" by (simp add: utf8_None_iff)
  then obtain bytes where "utf8 cp = Some bytes" by blast
  with Cons show ?case by (simp add: encoded_def)
qed


lemma quote_plus_scalar:
  "list_all scalar_value s \<Longrightarrow> quote_plus s = Inr (quote_from_bytes (encoded s))"
  by (simp add: quote_plus_def encode_utf8_scalar)


lemma quote_params_scalar:
  assumes "\<forall>(key, value) \<in> set ps. list_all scalar_value value"
  shows "quote_params ps =
         Inr (map (\<lambda>(key, value). key @ ''='' @ quote_from_bytes (encoded value)) ps)"
  using assms by (induction ps) (auto simp: quote_plus_scalar)

lemma params_scalar:
  assumes "list_all scalar_value q" and "list_all scalar_value loc"
  shows "\<forall>(key, value) \<in> set (params q loc page). list_all scalar_value value"
  using assms by (simp add: params_def code_points_scalar)

lemma build_search_url_returns:
  assumes "list_all scalar_value q" and "list_all scalar_value loc"
  shows "\<exists>url. build_search_url q loc page = Inr url"
  by (simp add: build_search_url_def quote_params_scalar [OF params_scalar [OF assms]])

lemma surrogate_not_scalar: "\<not> scalar_value 56448"
  by (simp add: scalar_value_def)

lemma quote_plus_surrogate: "quote_plus [56448] = Inl UnicodeEncodeError"
proof -
  have "utf8 56448 = None" using surrogate_not_scalar utf8_None_iff by blast
  then show ?thesis by (simp add: quote_plus_def)
qed

lemma always_safe_ascii: "always_safe c \<Longrightarrow> of_char c < (128 :: nat)"
  by (auto simp: always_safe_def)

lemma quote_byte_safe: "always_safe c \<Longrightarrow> quote_byte (of_char c) = [c]"
  by (simp add: quote_byte_def)

lemma digit_char_safe:
  assumes "k < 10"
  shows "always_safe (digit_char k)"
proof -
  from assms have "k = 0 \<or> k = 1 \<or> k = 2 \<or> k = 3 \<or> k = 4 \<or> k = 5 \<or> k = 6
    \<or> k = 7 \<or> k = 8 \<or> k = 9" by arith
  then show ?thesis
    by (elim disjE) (simp_all add: digit_char_def always_safe_def)
qed

lemma str_nat_safe: "\<forall>c \<in> set (str_nat n). always_safe c"
proof (induction n rule: str_nat.induct)
  case (1 n)
  show ?case
  proof (cases "n < 10")
    case True
    then show ?thesis by (subst str_nat.simps) (simp add: digit_char_safe)
  next
    case False
    have "n mod 10 < 10" by simp
    then have "always_safe (digit_char (n mod 10))" by (rule digit_char_safe)
    with "1.IH" [OF False] False show ?thesis
      by (subst str_nat.simps) simp
  qed
qed

lemma str_int_safe: "\<forall>c \<in> set (str_int i). always_safe c"
proof -
  have "always_safe CHR ''-''" by (simp add: always_safe_def)
  then show ?thesis by (simp add: str_int_def str_nat_safe)
qed

lemma quote_safe:
  assumes "\<forall>c \<in> set s. always_safe c"
  shows "quote_from_bytes (encoded (code_points s)) = s"
  using assms
proof (induction s)
  case Nil
  show ?case by (simp add: quote_from_bytes_def encoded_def code_points_def)
next
  case (Cons c s)
  then have c: "always_safe c" and IH: "quote_from_bytes (encoded (code_points s)) = s"
    by simp_all
  have "utf8 (of_char c) = Some [of_char c]"
    using always_safe_ascii [OF c] by (simp add: utf8_def)
  then have "quote_from_bytes (encoded (code_points (c # s)))
      = quote_byte (of_char c) @ quote_from_bytes (encoded (code_points s))"
    by (simp add: quote_from_bytes_def encoded_def code_points_def)
  then show ?case by (simp add: quote_byte_safe [OF c] IH)
qed

lemma quote_str_int: "quote_from_bytes (encoded (code_points (str_int i))) = str_int i"
  by (rule quote_safe) (rule str_int_safe)







lemma quote_literals:
  "quoted (code_points ''submit'') = ''submit''"
  "quoted (code_points ''25'') = ''25''"
  "quoted (code_points ''60'') = ''60''"
  "quoted (code_points ''personalizedSearch'') = ''personalizedSearch''"
  "quoted (code_points ''0'') = ''0''"
  "quoted (code_points ''OR'') = ''OR''"
  "quoted (code_points ''I'') = ''I''"
  "quoted (code_points ''1'') = ''1''"
  "quoted (code_points (str_int i)) = str_int i"
  unfolding quoted_def
  by (simp_all add: quote_safe always_safe_def quote_str_int)

lemma build_search_url_shape:
  assumes "list_all scalar_value q" and "list_all scalar_value loc"
  shows "build_search_url q loc page = Inr (
     ''https://www.timesjobs.com/candidate/job-search.html?from=submit&luceneResultSize=25&txtKeywords=''
     @ quoted q
     @ ''&postWeek=60&searchType=personalizedSearch&actualTxtKeywords=''
     @ quoted q
     @ ''&searchBy=0&rdoOperator=OR&pDate=I&sequence=''
     @ str_int page
     @ ''&startPage=1''
     @ (if loc \<noteq> [] then ''&txtLocation='' @ quoted loc else []))"
proof -
  have "quote_params (params q loc page) =
      Inr (map (\<lambda>(key, value). key @ ''='' @ quoted value) (params q loc page))"
    unfolding quoted_def by (rule quote_params_scalar [OF params_scalar [OF assms]])
  then show ?thesis
    by (simp add: build_search_url_def params_def base_url_def quote_literals)
qed












lemma str_int_small:
  "str_int 1 = ''1''" "str_int 2 = ''2''" "str_int 3 = ''3''"
  by code_simp+



section \<open>Properties of pagination and of the pipeline\<close>

lemma scrape_pages_step:
  "scrape_pages fetch q loc (p # pages) st =
     (if uncaught fetch q loc p
      then Inl (case page_outcome fetch q loc p of Inl e \<Rightarrow> e | Inr out \<Rightarrow> NotCaught)
      else if empty_page fetch q loc p then Inr (st\<lparr>requested := requested st @ [p]\<rparr>)
      else scrape_pages fetch q loc pages
             \<lparr>all_jobs = all_jobs st @ page_records fetch q loc p,
              requested = requested st @ [p]\<rparr>)"
proof (cases "build_search_url q loc p")
  case (Inl e)
  then show ?thesis by (simp add: uncaught_def page_outcome_def)
next
  case (Inr url)
  then show ?thesis
    by (cases st; cases "fetch url")
       (simp_all add: uncaught_def empty_page_def page_records_def listings_def
          page_outcome_def Let_def)
qed

lemma scrape_pages_prefix:
  assumes "\<forall>p \<in> set ps. \<not> empty_page fetch q loc p \<and> \<not> uncaught fetch q loc p"
  shows "scrape_pages fetch q loc (ps @ rest) st =
         scrape_pages fetch q loc rest
           \<lparr>all_jobs = all_jobs st @ concat (map (page_records fetch q loc) ps),
            requested = requested st @ ps\<rparr>"
  using assms
proof (induction ps arbitrary: st)
  case Nil
  show ?case by (cases st) simp
next
  case (Cons p ps)
  then show ?case by (simp add: scrape_pages_step del: scrape_pages.simps)
qed

lemma scrape_pages_Inr:
  assumes "scrape_pages fetch q loc pages st = Inr st'"
  shows "\<exists>ps. prefix ps pages \<and> (pages \<noteq> [] \<longrightarrow> ps \<noteq> [])
           \<and> requested st' = requested st @ ps
           \<and> all_jobs st' = all_jobs st @ concat (map (page_records fetch q loc) ps)"
  using assms
proof (induction pages arbitrary: st)
  case Nil
  then show ?case by simp
next
  case (Cons p pages)
  have not_raised: "\<not> uncaught fetch q loc p"
    using Cons.prems by (auto simp: scrape_pages_step simp del: scrape_pages.simps)
  show ?case
  proof (cases "empty_page fetch q loc p")
    case True
    then have "listings fetch q loc p = []"
      by (auto simp: empty_page_def listings_def split: outcome.splits sum.splits)
    then have "page_records fetch q loc p = []"
      by (simp add: page_records_def)
    moreover have "st' = st\<lparr>requested := requested st @ [p]\<rparr>"
      using Cons.prems True not_raised
      by (simp add: scrape_pages_step del: scrape_pages.simps)
    ultimately have "prefix [p] (p # pages) \<and> requested st' = requested st @ [p]
        \<and> all_jobs st' = all_jobs st @ concat (map (page_records fetch q loc) [p])"
      by simp
    then show ?thesis by blast
  next
    case False
    let ?st1 = "\<lparr>all_jobs = all_jobs st @ page_records fetch q loc p,
                 requested = requested st @ [p]\<rparr>"
    have "scrape_pages fetch q loc pages ?st1 = Inr st'"
      using Cons.prems False not_raised
      by (simp add: scrape_pages_step del: scrape_pages.simps)
    from Cons.IH [OF this] obtain ps where
      ps: "prefix ps pages" "requested st' = requested ?st1 @ ps"
          "all_jobs st' = all_jobs ?st1 @ concat (map (page_records fetch q loc) ps)"
      by blast
    then have "prefix (p # ps) (p # pages) \<and> requested st' = requested st @ (p # ps)
        \<and> all_jobs st' = all_jobs st @ concat (map (page_records fetch q loc) (p # ps))"
      by simp
    then show ?thesis by blast
  qed
qed

lemma scrape_pages_returns:
  assumes "\<forall>p \<in> set pages. \<not> uncaught fetch q loc p"
  shows "\<exists>st'. scrape_pages fetch q loc pages st = Inr st'"
  using assms
proof (induction pages arbitrary: st)
  case Nil
  then show ?case by simp
next
  case (Cons p pages)
  then show ?case by (simp add: scrape_pages_step del: scrape_pages.simps)
qed

lemma collect_split:
  assumes "1 \<le> N" "N \<le> max_pages"
    and "\<forall>p \<in> set [1..N - 1]. \<not> empty_page fetch q loc p \<and> \<not> uncaught fetch q loc p"
  shows "collect fetch q loc max_pages =
         scrape_pages fetch q loc (N # [N + 1..max_pages])
           \<lparr>all_jobs = concat (map (page_records fetch q loc) [1..N - 1]),
            requested = [1..N - 1]\<rparr>"
proof -
  have "[1..max_pages] = [1..N - 1] @ N # [N + 1..max_pages]"
    using assms(1,2) by (rule upto_split3)
  then show ?thesis
    unfolding collect_def using scrape_pages_prefix [OF assms(3)] by simp
qed

lemma build_search_url_python: "build_search_url python [] page = Inr (python_url page)"
proof -
  have "quoted python = ''python''"
    unfolding python_def quoted_def by (rule quote_safe) (simp add: always_safe_def)
  moreover have "list_all scalar_value python"
    unfolding python_def by (rule code_points_scalar)
  ultimately show ?thesis
    using build_search_url_shape [of python "[]" page] by (simp add: python_url_def)
qed

lemma python_url_eq: "python_url a = python_url b \<longleftrightarrow> str_int a = str_int b"
  by (simp add: python_url_def)

lemma stop_table_outcomes:
  "page_outcome (fake_fetch stop_table) python [] 1
     = Inr (Soup (results_page [listing ''a'', listing ''b'']))"
  "page_outcome (fake_fetch stop_table) python [] 2 = Inr (Soup (results_page []))"
  by (simp_all add: page_outcome_def fake_fetch_def stop_table_def build_search_url_python
      python_url_eq str_int_small)

lemma error_table_outcomes:
  "page_outcome (fake_fetch error_table) python [] 1 = Inr (Soup (results_page [listing ''a'']))"
  "page_outcome (fake_fetch error_table) python [] 2 = Inr RequestException"
  "page_outcome (fake_fetch error_table) python [] 3 = Inr (Soup (results_page [listing ''c'']))"
  by (simp_all add: page_outcome_def fake_fetch_def error_table_def build_search_url_python
      python_url_eq str_int_small)

lemma barren_table_outcomes:
  "page_outcome (fake_fetch barren_table) python [] 1 = Inr RequestException"
  "page_outcome (fake_fetch barren_table) python [] 2 = Inr OtherException"
  "page_outcome (fake_fetch barren_table) python [] 3 = Inr (Soup (results_page []))"
  by (simp_all add: page_outcome_def fake_fetch_def barren_table_def build_search_url_python
      python_url_eq str_int_small)

lemma example_pages:
  "find_all ''li'' (Some listing_marker) (results_page [listing ''a'', listing ''b''])
     = [listing ''a'', listing ''b'']"
  "find_all ''li'' (Some listing_marker) (results_page [listing ''a'']) = [listing ''a'']"
  "find_all ''li'' (Some listing_marker) (results_page [listing ''c'']) = [listing ''c'']"
  "find_all ''li'' (Some listing_marker) (results_page []) = []"
  by code_simp+

lemma example_records:
  "extract_loop [listing ''a'', listing ''b''] [] = [example_job ''a'' [], example_job ''b'' []]"
  "extract_loop [listing ''a''] [] = [example_job ''a'' []]"
  "extract_loop [listing ''c''] [] = [example_job ''c'' []]"
  by code_simp+

lemma upto_small: "[1..1] = [1::int]" "[1..2] = [1, 2::int]" "[1..3] = [1, 2, 3::int]"
  "[3..3] = [3::int]"
  by code_simp+

text \<open>
  Claim C3. When page \<open>N\<close> is fetched and has no listing, collection stops there: the
  pages requested are exactly \<open>1\<close> to \<open>N\<close>, also when \<open>N < max_pages\<close>, and the
  records are those of the pages before \<open>N\<close>. Page \<open>N\<close> is fetched when no earlier page
  ended pagination or raised past the handlers.
\<close>

theorem empty_page_stops_pagination:
  assumes "1 \<le> N" and "N \<le> max_pages"
    and "empty_page fetch q loc N"
    and "\<forall>p \<in> set [1..N - 1]. \<not> empty_page fetch q loc p \<and> \<not> uncaught fetch q loc p"
  shows "collect fetch q loc max_pages =
         Inr \<lparr>all_jobs = concat (map (page_records fetch q loc) [1..N - 1]),
              requested = [1..N]\<rparr>"
proof -
  have "\<not> uncaught fetch q loc N"
    using assms(3) by (auto simp: empty_page_def uncaught_def split: sum.splits)
  moreover have "[1..N] = [1..N - 1] @ [N]"
    using assms(1) by (simp add: upto_rec2)
  ultimately show ?thesis
    using assms(3) by (simp add: collect_split [OF assms(1,2,4)] scrape_pages_step
        del: scrape_pages.simps)
qed

text \<open>
  The example of the specification: 2 listings on page 1, none on page 2 and
  \<open>max_pages = 5\<close>. The fake fetcher raises past the handlers on pages 3 to 5, so a
  request for one of them would not go unnoticed.
\<close>

theorem empty_page_stops_pagination_witness:
  "collect (fake_fetch stop_table) python [] 5 =
     Inr \<lparr>all_jobs = [example_job ''a'' [], example_job ''b'' []], requested = [1, 2]\<rparr>"
proof -
  have h3: "empty_page (fake_fetch stop_table) python [] 2"
    by (simp add: empty_page_def stop_table_outcomes example_pages)
  have h4: "\<forall>p \<in> set [1..2 - 1]. \<not> empty_page (fake_fetch stop_table) python [] p
              \<and> \<not> uncaught (fake_fetch stop_table) python [] p"
    by (simp add: upto_small empty_page_def uncaught_def stop_table_outcomes example_pages)
  have r: "concat (map (page_records (fake_fetch stop_table) python []) [1..2 - 1])
             = [example_job ''a'' [], example_job ''b'' []]"
    by (simp add: upto_small page_records_def listings_def stop_table_outcomes example_pages
        example_records del: extract_loop.simps)
  have h1: "(1::int) \<le> 2" and h2: "(2::int) \<le> 5" by simp_all
  show ?thesis
    using empty_page_stops_pagination [OF h1 h2 h3 h4] by (simp only: r upto_small)
qed

text \<open>
  Claim C4. A \<open>RequestException\<close> on page \<open>N\<close> does not end the run: the loop goes on
  with page \<open>N + 1\<close>, keeping the records of the pages before; so in a run that
  returns, page \<open>N + 1\<close> is requested when \<open>N < max_pages\<close>, and the records are those
  of all requested pages other than \<open>N\<close>. That the request of page \<open>N\<close> raises is
  \<open>page_outcome fetch q loc N = Inr RequestException\<close>: the URL was built and the
  request for it raised.
\<close>

theorem fetch_error_skips_page:
  assumes "1 \<le> N" and "N \<le> max_pages"
    and "page_outcome fetch q loc N = Inr RequestException"
    and "\<forall>p \<in> set [1..N - 1]. \<not> empty_page fetch q loc p \<and> \<not> uncaught fetch q loc p"
  shows "collect fetch q loc max_pages =
           scrape_pages fetch q loc [N + 1..max_pages]
             \<lparr>all_jobs = concat (map (page_records fetch q loc) [1..N - 1]),
              requested = [1..N]\<rparr>
         \<and> (\<forall>st. collect fetch q loc max_pages = Inr st \<longrightarrow>
               (N < max_pages \<longrightarrow> N + 1 \<in> set (requested st)) \<and>
               all_jobs st = concat (map (page_records fetch q loc)
                                      (filter (\<lambda>p. p \<noteq> N) (requested st))))"
proof -
  let ?st1 = "\<lparr>all_jobs = concat (map (page_records fetch q loc) [1..N - 1]),
               requested = [1..N]\<rparr>"
  have N: "\<not> uncaught fetch q loc N" "\<not> empty_page fetch q loc N"
       "page_records fetch q loc N = []"
    using assms(3) by (simp_all add: uncaught_def empty_page_def page_records_def listings_def)
  have upto: "[1..N] = [1..N - 1] @ [N]"
    using assms(1) by (simp add: upto_rec2)
  have run: "collect fetch q loc max_pages = scrape_pages fetch q loc [N + 1..max_pages] ?st1"
    using N upto by (simp add: collect_split [OF assms(1,2,4)] scrape_pages_step
        del: scrape_pages.simps)
  have rest: "(N < max_pages \<longrightarrow> N + 1 \<in> set (requested st)) \<and>
        all_jobs st = concat (map (page_records fetch q loc)
                               (filter (\<lambda>p. p \<noteq> N) (requested st)))"
    if "collect fetch q loc max_pages = Inr st" for st
  proof -
    from that run have "scrape_pages fetch q loc [N + 1..max_pages] ?st1 = Inr st" by simp
    from scrape_pages_Inr [OF this] obtain ps where
      ps: "prefix ps [N + 1..max_pages]" "[N + 1..max_pages] \<noteq> [] \<longrightarrow> ps \<noteq> []"
          "requested st = [1..N] @ ps"
          "all_jobs st = concat (map (page_records fetch q loc) [1..N - 1])
             @ concat (map (page_records fetch q loc) ps)"
      by auto
    have sub: "set ps \<subseteq> {N + 1..max_pages}"
      using ps(1) set_mono_prefix by fastforce
    then have notin: "N \<notin> set ps" by auto
    have "filter (\<lambda>p. p \<noteq> N) (requested st) = [1..N - 1] @ ps"
      using notin by (auto simp: ps(3) upto filter_id_conv)
    then have jobs: "all_jobs st = concat (map (page_records fetch q loc)
                               (filter (\<lambda>p. p \<noteq> N) (requested st)))"
      by (simp add: ps(4))
    have "N + 1 \<in> set (requested st)" if "N < max_pages"
    proof -
      from that have "[N + 1..max_pages] = (N + 1) # [N + 1 + 1..max_pages]"
        by (intro upto_rec1) simp
      with ps(1,2) obtain ps' where "ps = (N + 1) # ps'"
        by (cases ps) auto
      then show ?thesis by (simp add: ps(3))
    qed
    with jobs show ?thesis by simp
  qed
  from run rest show ?thesis by blast
qed

text \<open>
  The example of the specification: one listing on each of pages 1 and 3, a
  \<open>RequestException\<close> on page 2, \<open>max_pages = 3\<close>.
\<close>

theorem fetch_error_skips_page_witness:
  "collect (fake_fetch error_table) python [] 3 =
     Inr \<lparr>all_jobs = [example_job ''a'' [], example_job ''c'' []], requested = [1, 2, 3]\<rparr>"
proof -
  have h3: "page_outcome (fake_fetch error_table) python [] 2 = Inr RequestException"
    by (rule error_table_outcomes)
  have h4: "\<forall>p \<in> set [1..2 - 1]. \<not> empty_page (fake_fetch error_table) python [] p
              \<and> \<not> uncaught (fake_fetch error_table) python [] p"
    by (simp add: upto_small empty_page_def uncaught_def error_table_outcomes example_pages)
  have p1: "page_records (fake_fetch error_table) python [] 1 = [example_job ''a'' []]"
    by (simp add: page_records_def listings_def error_table_outcomes example_pages
        example_records del: extract_loop.simps)
  have p3: "\<not> uncaught (fake_fetch error_table) python [] 3"
      "\<not> empty_page (fake_fetch error_table) python [] 3"
      "page_records (fake_fetch error_table) python [] 3 = [example_job ''c'' []]"
    by (simp_all add: uncaught_def empty_page_def page_records_def listings_def
        error_table_outcomes example_pages example_records del: extract_loop.simps)
  have r: "scrape_pages (fake_fetch error_table) python [] [2 + 1..3]
             \<lparr>all_jobs = concat (map (page_records (fake_fetch error_table) python []) [1..2 - 1]),
              requested = [1..2]\<rparr>
           = Inr \<lparr>all_jobs = [example_job ''a'' [], example_job ''c'' []], requested = [1, 2, 3]\<rparr>"
    by (simp add: p1 upto_small scrape_pages_step p3 del: scrape_pages.simps(2))
  have h1: "(1::int) \<le> 2" and h2: "(2::int) \<le> 3" by simp_all
  show ?thesis
    using fetch_error_skips_page [OF h1 h2 h3 h4, THEN conjunct1] by (simp only: r)
qed

text \<open>
  Claim C5 as stated fails: with a query that is one lone surrogate (\<open>U+DC80\<close>),
  \<open>max_pages = 1\<close> and a network on which every request raises a
  \<open>RequestException\<close>, \<open>scrape_jobs\<close> raises \<open>UnicodeEncodeError\<close> to its caller, from
  the URL builder on line 137, which no handler covers.
\<close>

theorem scrape_jobs_surrogate_counterexample:
  "scrape_jobs refusing_fetch [56448] [] None 1 = Inl UnicodeEncodeError"
proof -
  have "quote_params (params [56448] [] 1) = Inl UnicodeEncodeError"
    by (simp add: params_def quote_plus_scalar code_points_scalar quote_plus_surrogate)
  then have "build_search_url [56448] [] 1 = Inl UnicodeEncodeError"
    by (simp add: build_search_url_def)
  moreover have "[1..1] = [1::int]" by simp
  ultimately show ?thesis
    by (simp add: scrape_jobs_def collect_def)
qed

text \<open>
  Claim C5, amended. When the query and the location hold Unicode scalar values only (no
  lone surrogate), then whatever they, the unfamiliar skills and \<open>max_pages\<close> are, and
  for every outcome of the pages that the handlers cover (a \<open>RequestException\<close>, another
  \<open>Exception\<close>, or a parsed page, with or without listings), \<open>scrape_jobs\<close> returns a
  list and raises nothing; when no page gives a record the list is empty.
\<close>

theorem scrape_jobs_returns_on_encodable_input:
  assumes "list_all scalar_value q" and "list_all scalar_value loc"
    and "\<forall>p \<in> set [1..max_pages]. page_outcome fetch q loc p \<noteq> Inr NotAnException"
  shows "(\<exists>jobs. scrape_jobs fetch q loc unfamiliar_skills max_pages = Inr jobs)
       \<and> ((\<forall>p \<in> set [1..max_pages]. page_records fetch q loc p = [])
            \<longrightarrow> scrape_jobs fetch q loc unfamiliar_skills max_pages = Inr [])"
proof -
  have caught: "\<forall>p \<in> set [1..max_pages]. \<not> uncaught fetch q loc p"
  proof
    fix p assume p: "p \<in> set [1..max_pages]"
    from build_search_url_returns [OF assms(1,2)] obtain url where
      "build_search_url q loc p = Inr url" by blast
    then have "page_outcome fetch q loc p = Inr (fetch url)"
      by (simp add: page_outcome_def)
    with assms(3) p show "\<not> uncaught fetch q loc p"
      by (auto simp: uncaught_def)
  qed
  from scrape_pages_returns [OF caught] obtain st where
    st: "collect fetch q loc max_pages = Inr st"
    unfolding collect_def by blast
  then have "scrape_pages fetch q loc [1..max_pages] \<lparr>all_jobs = [], requested = []\<rparr> = Inr st"
    by (simp only: collect_def)
  from scrape_pages_Inr [OF this] obtain ps where ps: "prefix ps [1..max_pages]"
      "all_jobs st = concat (map (page_records fetch q loc) ps)"
    by auto
  have "all_jobs st = []" if "\<forall>p \<in> set [1..max_pages]. page_records fetch q loc p = []"
  proof -
    have "set ps \<subseteq> set [1..max_pages]" using ps(1) by (rule set_mono_prefix)
    with that show ?thesis by (auto simp: ps(2))
  qed
  then show ?thesis
    using st by (auto simp: scrape_jobs_def filter_jobs_by_skills_eq)
qed

theorem scrape_jobs_returns_on_encodable_input_witness:
  "scrape_jobs (fake_fetch barren_table) python [] (Some [''java'']) 3 = Inr []"
proof -
  have q: "list_all scalar_value python"
    unfolding python_def by (rule code_points_scalar)
  have l: "list_all scalar_value []" by simp
  have h: "\<forall>p \<in> set [1..3]. page_outcome (fake_fetch barren_table) python [] p
             \<noteq> Inr NotAnException"
    by (simp add: upto_small barren_table_outcomes)
  have e: "\<forall>p \<in> set [1..3]. page_records (fake_fetch barren_table) python [] p = []"
    by (simp add: upto_small page_records_def listings_def barren_table_outcomes example_pages)
  show ?thesis
    using scrape_jobs_returns_on_encodable_input [OF q l h] e by blast
qed

end
